theory Spec2Isabelle
  imports Main "HOL-Library.Multiset"
begin

section \<open>The media wall response reducer of loklak\_search\<close>

text \<open>
  Source: \<^verbatim>\<open>src/app/reducers/api-media-wall-response.ts\<close>.

  The reducer never looks inside a post (\<^verbatim>\<open>ApiResponseResult\<close>, declared in
  \<^verbatim>\<open>../models/api-response\<close>): it only hands lists of posts to the helper functions
  it imports from \<^verbatim>\<open>../models\<close>. The post type is therefore the type parameter
  \<open>'e\<close>, and the seven imported helpers are the fields of a record that the
  reducer receives as its first argument.
\<close>

subsection \<open>Data\<close>

text \<open>The payload of the two success actions; the reducer reads \<^verbatim>\<open>statuses\<close> only.\<close>

record 'e ApiResponse =
  statuses :: "'e list"

text \<open>\<^verbatim>\<open>export interface State\<close>, lines 15 to 22.\<close>

record 'e State =
  entities :: "'e list"
  filteredEntities :: "'e list"
  hiddenFeedId :: "string list"
  blockedUser :: "string list"
  profanityCheck :: bool
  removeDuplicate :: bool

text \<open>\<^verbatim>\<open>export const initialState\<close>, lines 30 to 37.\<close>

definition initialState :: "'e State" where
  "initialState =
     \<lparr>entities = [], filteredEntities = [], hiddenFeedId = [], blockedUser = [],
      profanityCheck = False, removeDuplicate = False\<rparr>"

text \<open>
  The import of line 6:
  \<^verbatim>\<open>import { removeDuplicateCheck, accountExclusion, hideFeed, showFeed,
           accountInclusion, removeId, profanityFilter } from '../models'\<close>
  with the argument order of the call sites in the reducer.
\<close>

record 'e models =
  removeDuplicateCheck :: "'e list \<Rightarrow> 'e list"
  accountExclusion :: "'e list \<Rightarrow> string list \<Rightarrow> 'e list"
  hideFeed :: "'e list \<Rightarrow> string \<Rightarrow> 'e list"
  showFeed :: "'e list \<Rightarrow> 'e list \<Rightarrow> string \<Rightarrow> 'e list"
  accountInclusion :: "'e list \<Rightarrow> 'e list \<Rightarrow> string \<Rightarrow> 'e list"
  removeId :: "string list \<Rightarrow> string \<Rightarrow> string list"
  profanityFilter :: "'e list \<Rightarrow> 'e list"

text \<open>
  The actions the \<^verbatim>\<open>switch\<close> of the reducer tells apart, one constructor per
  \<^verbatim>\<open>case\<close> label, with the payload that case reads. \<open>OTHER_ACTION\<close> stands for
  every action whose type tag (its argument) is none of the ten labels: the
  store hands each dispatched action to every reducer, and such an action takes
  the \<^verbatim>\<open>default\<close> branch.
\<close>

datatype 'e action =
    WALL_SEARCH_COMPLETE_SUCCESS "'e ApiResponse"
  | WALL_SEARCH_COMPLETE_FAIL
  | WALL_PAGINATION_COMPLETE_SUCCESS "'e ApiResponse"
  | WALL_PAGINATION_COMPLETE_FAIL
  | WALL_HIDE_FEED string
  | WALL_SHOW_FEED string
  | WALL_BLOCK_USER string
  | WALL_UNBLOCK_USER string
  | WALL_PROFANITY_CHANGE_ACTION bool
  | WALL_REMOVE_DUPLICATE_CHANGE_ACTION bool
  | OTHER_ACTION string

subsection \<open>The reducer\<close>

text \<open>
  \<^verbatim>\<open>export function reducer\<close>, lines 48 to 153, case by case in the order of the
  source. \<^verbatim>\<open>Object.assign({}, state, {...})\<close> is a record update of a copy of the
  state; \<^verbatim>\<open>[...xs, ...ys]\<close> is \<open>xs @ ys\<close>. The local \<^verbatim>\<open>let newFeeds\<close> that the
  source reassigns under an \<^verbatim>\<open>if\<close> is a chain of \<open>let\<close> bindings.
\<close>

fun reducer :: "'e models \<Rightarrow> 'e State \<Rightarrow> 'e action \<Rightarrow> 'e State" where
  "reducer M state (WALL_SEARCH_COMPLETE_SUCCESS apiResponse) =
     (let newFeeds = accountExclusion M (statuses apiResponse) (blockedUser state);
          newFeeds = (if profanityCheck state then profanityFilter M newFeeds else newFeeds);
          newFeeds = (if removeDuplicate state then removeDuplicateCheck M newFeeds else newFeeds)
      in state\<lparr>entities := statuses apiResponse, filteredEntities := newFeeds\<rparr>)"
| "reducer M state WALL_SEARCH_COMPLETE_FAIL = state"
| "reducer M state (WALL_PAGINATION_COMPLETE_SUCCESS apiResponse) =
     (let newFeeds = accountExclusion M (statuses apiResponse) (blockedUser state);
          newFeeds = (if profanityCheck state then profanityFilter M (statuses apiResponse)
                      else newFeeds);
          filtered = newFeeds @ filteredEntities state;
          filtered = (if removeDuplicate state then removeDuplicateCheck M filtered
                      else filtered)
      in state\<lparr>entities := statuses apiResponse @ entities state,
               filteredEntities := filtered\<rparr>)"
| "reducer M state WALL_PAGINATION_COMPLETE_FAIL = state"
| "reducer M state (WALL_HIDE_FEED ident) =
     (let newFeeds = hideFeed M (filteredEntities state) ident
      in state\<lparr>filteredEntities := newFeeds,
               hiddenFeedId := hiddenFeedId state @ [ident]\<rparr>)"
| "reducer M state (WALL_SHOW_FEED ident) =
     (let newEntities = showFeed M (entities state) (filteredEntities state) ident;
          newHiddenFeedId = removeId M (hiddenFeedId state) ident
      in state\<lparr>filteredEntities := newEntities, hiddenFeedId := newHiddenFeedId\<rparr>)"
| "reducer M state (WALL_BLOCK_USER user) =
     (let blocked = blockedUser state @ [user];
          newFeeds = accountExclusion M (filteredEntities state) blocked
      in state\<lparr>filteredEntities := newFeeds, blockedUser := blocked\<rparr>)"
| "reducer M state (WALL_UNBLOCK_USER user) =
     (let newEntities = accountInclusion M (entities state) (filteredEntities state) user;
          newBlockedUser = removeId M (hiddenFeedId state) user
      in state\<lparr>filteredEntities := newEntities, blockedUser := newBlockedUser\<rparr>)"
| "reducer M state (WALL_PROFANITY_CHANGE_ACTION flag) =
     (let filtered = profanityFilter M (filteredEntities state)
      in state\<lparr>filteredEntities := filtered, profanityCheck := flag\<rparr>)"
| "reducer M state (WALL_REMOVE_DUPLICATE_CHANGE_ACTION flag) =
     (let filtered = removeDuplicateCheck M (filteredEntities state)
      in state\<lparr>filteredEntities := filtered, removeDuplicate := flag\<rparr>)"
| "reducer M state (OTHER_ACTION tag) = state"

text \<open>
  The default parameter \<^verbatim>\<open>state: State = initialState\<close>: a call without a state
  (\<open>None\<close>) runs the body on \<open>initialState\<close>.
\<close>

definition reducer_default :: "'e models \<Rightarrow> 'e State option \<Rightarrow> 'e action \<Rightarrow> 'e State" where
  "reducer_default M st a =
     reducer M (case st of None \<Rightarrow> initialState | Some s \<Rightarrow> s) a"

text \<open>Dispatching a sequence of actions, oldest first, from a given state.\<close>

definition dispatch :: "'e models \<Rightarrow> 'e State \<Rightarrow> 'e action list \<Rightarrow> 'e State" where
  "dispatch M s acts = foldl (reducer M) s acts"

text \<open>The selectors of lines 164 to 174 are the field projections of \<open>State\<close>.\<close>

definition getEntities :: "'e State \<Rightarrow> 'e list" where
  "getEntities state = entities state"

definition getFilteredEntities :: "'e State \<Rightarrow> 'e list" where
  "getFilteredEntities state = filteredEntities state"

definition getHiddenFeedId :: "'e State \<Rightarrow> string list" where
  "getHiddenFeedId state = hiddenFeedId state"

definition getBlockedUser :: "'e State \<Rightarrow> string list" where
  "getBlockedUser state = blockedUser state"

definition getProfanityCheck :: "'e State \<Rightarrow> bool" where
  "getProfanityCheck state = profanityCheck state"

definition getDuplicateRemove :: "'e State \<Rightarrow> bool" where
  "getDuplicateRemove state = removeDuplicate state"

subsection \<open>The contracts of the imported helpers\<close>

text \<open>The ids of the posts of a list; \<open>idf\<close> reads the id of a post.\<close>

definition ids_of :: "('e \<Rightarrow> string) \<Rightarrow> 'e list \<Rightarrow> string set" where
  "ids_of idf es = idf ` set es"

text \<open>
  The invariant "the filtered view is a subset of the raw list by id" is claimed
  under the assumption that the helpers keep to their contracts. Four helpers
  return posts whose ids are ids of their input; the two that re-add posts take
  them from the list of all posts (their first argument) and otherwise keep the
  current view (their second).
\<close>

definition helper_contracts :: "('e \<Rightarrow> string) \<Rightarrow> 'e models \<Rightarrow> bool" where
  "helper_contracts idf M \<longleftrightarrow>
     (\<forall>es blocked. ids_of idf (accountExclusion M es blocked) \<subseteq> ids_of idf es) \<and>
     (\<forall>es. ids_of idf (profanityFilter M es) \<subseteq> ids_of idf es) \<and>
     (\<forall>es. ids_of idf (removeDuplicateCheck M es) \<subseteq> ids_of idf es) \<and>
     (\<forall>es i. ids_of idf (hideFeed M es i) \<subseteq> ids_of idf es) \<and>
     (\<forall>allEs cur i. ids_of idf (showFeed M allEs cur i)
        \<subseteq> ids_of idf cur \<union> ids_of idf allEs) \<and>
     (\<forall>allEs cur a. ids_of idf (accountInclusion M allEs cur a)
        \<subseteq> ids_of idf cur \<union> ids_of idf allEs)"

text \<open>The invariant itself, on one state.\<close>

definition filtered_ids_within_entities :: "('e \<Rightarrow> string) \<Rightarrow> 'e State \<Rightarrow> bool" where
  "filtered_ids_within_entities idf s \<longleftrightarrow>
     ids_of idf (filteredEntities s) \<subseteq> ids_of idf (entities s)"

section \<open>The helpers of \<^verbatim>\<open>../models\<close>, modelled from the specification\<close>

text \<open>
  Modelled from the spec: the post record \<^verbatim>\<open>ApiResponseResult\<close> of
  \<^verbatim>\<open>../models/api-response\<close>, which is not among the sources. The specification
  describes it as a record "identified by an id field", with an "author/account
  reference" and "text content"; its scenarios write \<^verbatim>\<open>{id:1, acct:"a"}\<close>. Ids
  and account ids are strings, as \<^verbatim>\<open>hiddenFeedId: string[]\<close> and
  \<^verbatim>\<open>blockedUser: string[]\<close> of the state are.
\<close>

record ApiResponseResult =
  ent_id :: string
  acct :: string
  body :: string

text \<open>
  Modelled from the spec: \<^verbatim>\<open>accountExclusion\<close> of \<^verbatim>\<open>../models\<close>, not among the
  sources: "removes all entities whose account is in blockedAccounts;
  order-preserving".
\<close>

definition accountExclusion_spec ::
  "ApiResponseResult list \<Rightarrow> string list \<Rightarrow> ApiResponseResult list" where
  "accountExclusion_spec es blockedAccounts =
     filter (\<lambda>e. acct e \<notin> set blockedAccounts) es"

text \<open>
  Modelled from the spec: \<^verbatim>\<open>accountInclusion\<close> of \<^verbatim>\<open>../models\<close>, not among the
  sources: "re-adds entities by accountId from allEntities into currentFiltered;
  must not duplicate already-present entities". The specification does not say
  where the re-added posts go; here they follow the current view.
\<close>

definition accountInclusion_spec ::
  "ApiResponseResult list \<Rightarrow> ApiResponseResult list \<Rightarrow> string \<Rightarrow> ApiResponseResult list" where
  "accountInclusion_spec allEntities currentFiltered accountId =
     currentFiltered @
     filter (\<lambda>e. acct e = accountId \<and> e \<notin> set currentFiltered) allEntities"

text \<open>
  Modelled from the spec: \<^verbatim>\<open>hideFeed\<close> of \<^verbatim>\<open>../models\<close>, not among the sources:
  "removes the entity with id".
\<close>

definition hideFeed_spec :: "ApiResponseResult list \<Rightarrow> string \<Rightarrow> ApiResponseResult list" where
  "hideFeed_spec es i = filter (\<lambda>e. ent_id e \<noteq> i) es"

text \<open>
  Modelled from the spec: \<^verbatim>\<open>showFeed\<close> of \<^verbatim>\<open>../models\<close>, not among the sources:
  "re-adds entity id from allEntities into currentFiltered". The insertion
  position is left to the helper by the specification; here the re-added posts
  follow the current view.
\<close>

definition showFeed_spec ::
  "ApiResponseResult list \<Rightarrow> ApiResponseResult list \<Rightarrow> string \<Rightarrow> ApiResponseResult list" where
  "showFeed_spec allEntities currentFiltered i =
     currentFiltered @ filter (\<lambda>e. ent_id e = i) allEntities"

text \<open>
  Modelled from the spec: \<^verbatim>\<open>removeId\<close> of \<^verbatim>\<open>../models\<close>, not among the sources:
  "set/list difference of one id".
\<close>

definition removeId_spec :: "string list \<Rightarrow> string \<Rightarrow> string list" where
  "removeId_spec ids i = filter (\<lambda>x. x \<noteq> i) ids"

text \<open>
  Modelled from the spec: \<^verbatim>\<open>profanityFilter\<close> of \<^verbatim>\<open>../models\<close>, not among the
  sources: "removes or redacts entities deemed profane by an opaque lexical
  check; order-preserving; idempotent". The check is the parameter \<open>profane\<close>;
  this model removes.
\<close>

definition profanityFilter_spec ::
  "(ApiResponseResult \<Rightarrow> bool) \<Rightarrow> ApiResponseResult list \<Rightarrow> ApiResponseResult list" where
  "profanityFilter_spec profane es = filter (\<lambda>e. \<not> profane e) es"

text \<open>
  Modelled from the spec: \<^verbatim>\<open>removeDuplicateCheck\<close> of \<^verbatim>\<open>../models\<close>, not among
  the sources: "collapses entities considered duplicates (policy: by id or
  content hash); keeps first occurrence; idempotent". The policy is the
  parameter \<open>key\<close>: two posts are duplicates when their keys are equal.
\<close>

fun removeDuplicateCheck_spec ::
  "(ApiResponseResult \<Rightarrow> string) \<Rightarrow> ApiResponseResult list \<Rightarrow> ApiResponseResult list" where
  "removeDuplicateCheck_spec key [] = []"
| "removeDuplicateCheck_spec key (e # es) =
     e # removeDuplicateCheck_spec key (filter (\<lambda>x. key x \<noteq> key e) es)"

text \<open>
  The helpers together. The two filters whose criterion the specification
  leaves open are arguments, so that a statement about \<open>spec_models pf rd\<close> holds
  whatever they are.
\<close>

definition spec_models ::
  "(ApiResponseResult list \<Rightarrow> ApiResponseResult list) \<Rightarrow>
   (ApiResponseResult list \<Rightarrow> ApiResponseResult list) \<Rightarrow> ApiResponseResult models" where
  "spec_models pf rd =
     \<lparr>removeDuplicateCheck = rd,
      accountExclusion = accountExclusion_spec,
      hideFeed = hideFeed_spec,
      showFeed = showFeed_spec,
      accountInclusion = accountInclusion_spec,
      removeId = removeId_spec,
      profanityFilter = pf\<rparr>"

subsection \<open>Concrete helpers and posts for the worked scenarios\<close>

text \<open>A lexical check for the scenarios: a post is profane when its text is \<open>''darn''\<close>.\<close>

definition profane_word :: "ApiResponseResult \<Rightarrow> bool" where
  "profane_word e \<longleftrightarrow> body e = ''darn''"

definition wall_models :: "ApiResponseResult models" where
  "wall_models =
     spec_models (profanityFilter_spec profane_word) (removeDuplicateCheck_spec ent_id)"

text \<open>The posts of the scenarios of section 8 of the specification.\<close>

definition post1 :: ApiResponseResult where
  "post1 = \<lparr>ent_id = ''1'', acct = ''a'', body = ''first''\<rparr>"

definition post2 :: ApiResponseResult where
  "post2 = \<lparr>ent_id = ''2'', acct = ''b'', body = ''second''\<rparr>"

definition post3 :: ApiResponseResult where
  "post3 = \<lparr>ent_id = ''3'', acct = ''c'', body = ''third''\<rparr>"

text \<open>A post that the lexical check of the scenarios rejects.\<close>

definition post4 :: ApiResponseResult where
  "post4 = \<lparr>ent_id = ''4'', acct = ''b'', body = ''darn''\<rparr>"

text \<open>
  A session of the wall: a search, a block, a page of further results, and a
  post hidden and shown again.
\<close>

definition wall_session :: "ApiResponseResult action list" where
  "wall_session =
     [WALL_SEARCH_COMPLETE_SUCCESS \<lparr>statuses = [post1, post2]\<rparr>,
      WALL_BLOCK_USER ''a'',
      WALL_PAGINATION_COMPLETE_SUCCESS \<lparr>statuses = [post3]\<rparr>,
      WALL_HIDE_FEED ''3'',
      WALL_SHOW_FEED ''3'']"

section \<open>Properties of the reducer that hold for every choice of helpers\<close>

text \<open>
  C4. A failed search, a failed pagination and an action of any other kind
  return the state they were given, every field as it was.
\<close>

theorem failure_and_unknown_actions_return_state:
  "reducer M s WALL_SEARCH_COMPLETE_FAIL = s \<and>
   reducer M s WALL_PAGINATION_COMPLETE_FAIL = s \<and>
   reducer M s (OTHER_ACTION tag) = s"
  by simp

theorem failure_and_unknown_actions_witness:
  "reducer wall_models (initialState\<lparr>entities := [post1], blockedUser := [''a'']\<rparr>)
     WALL_SEARCH_COMPLETE_FAIL
     = \<lparr>entities = [post1], filteredEntities = [], hiddenFeedId = [], blockedUser = [''a''],
        profanityCheck = False, removeDuplicate = False\<rparr> \<and>
   reducer wall_models (initialState\<lparr>entities := [post1], blockedUser := [''a'']\<rparr>)
     WALL_PAGINATION_COMPLETE_FAIL
     = \<lparr>entities = [post1], filteredEntities = [], hiddenFeedId = [], blockedUser = [''a''],
        profanityCheck = False, removeDuplicate = False\<rparr> \<and>
   reducer wall_models (initialState\<lparr>entities := [post1], blockedUser := [''a'']\<rparr>)
     (OTHER_ACTION ''[Api] SEARCH'')
     = \<lparr>entities = [post1], filteredEntities = [], hiddenFeedId = [], blockedUser = [''a''],
        profanityCheck = False, removeDuplicate = False\<rparr>"
  using failure_and_unknown_actions_return_state
    [of wall_models "initialState\<lparr>entities := [post1], blockedUser := [''a'']\<rparr>" "''[Api] SEARCH''"]
  by (simp add: initialState_def)

text \<open>
  C1. A successful search replaces \<open>entities\<close> by the posts of the payload and
  recomputes \<open>filteredEntities\<close> from them: \<open>accountExclusion\<close> with the blocked
  users of the prior state, then \<open>profanityFilter\<close> when \<open>profanityCheck\<close> is set, then
  \<open>removeDuplicateCheck\<close> when \<open>removeDuplicate\<close> is set. When no user is blocked and
  both flags are off, and \<open>accountExclusion\<close> with no blocked account returns the
  posts it was given (its contract), both fields equal the posts.
\<close>

theorem search_success_recomputes_view:
  "entities (reducer M s (WALL_SEARCH_COMPLETE_SUCCESS p)) = statuses p \<and>
   filteredEntities (reducer M s (WALL_SEARCH_COMPLETE_SUCCESS p)) =
     (if removeDuplicate s then removeDuplicateCheck M else (\<lambda>es. es))
       ((if profanityCheck s then profanityFilter M else (\<lambda>es. es))
          (accountExclusion M (statuses p) (blockedUser s))) \<and>
   (blockedUser s = [] \<and> \<not> profanityCheck s \<and> \<not> removeDuplicate s \<and>
    accountExclusion M (statuses p) [] = statuses p \<longrightarrow>
      filteredEntities (reducer M s (WALL_SEARCH_COMPLETE_SUCCESS p)) = statuses p \<and>
      entities (reducer M s (WALL_SEARCH_COMPLETE_SUCCESS p)) = statuses p)"
  by (simp add: Let_def)

theorem search_success_witness:
  "blockedUser (initialState :: ApiResponseResult State) = [] \<and>
   \<not> profanityCheck (initialState :: ApiResponseResult State) \<and>
   \<not> removeDuplicate (initialState :: ApiResponseResult State) \<and>
   accountExclusion wall_models [post1, post2] [] = [post1, post2] \<and>
   filteredEntities (reducer wall_models initialState
      (WALL_SEARCH_COMPLETE_SUCCESS \<lparr>statuses = [post1, post2]\<rparr>)) = [post1, post2] \<and>
   entities (reducer wall_models initialState
      (WALL_SEARCH_COMPLETE_SUCCESS \<lparr>statuses = [post1, post2]\<rparr>)) = [post1, post2]"
  using search_success_recomputes_view
    [of wall_models initialState "\<lparr>statuses = [post1, post2]\<rparr>"]
  by (simp add: initialState_def wall_models_def spec_models_def accountExclusion_spec_def)

text \<open>
  C2. A successful pagination puts the raw posts in front of \<open>entities\<close>. The
  candidates are \<open>accountExclusion\<close> of the posts with the blocked users, except
  that with \<open>profanityCheck\<close> set they are \<open>profanityFilter\<close> of the raw posts; they
  go in front of \<open>filteredEntities\<close>, and \<open>removeDuplicateCheck\<close> runs on the
  combined list exactly when \<open>removeDuplicate\<close> is set. With no filter active (and
  \<open>accountExclusion\<close> with no blocked account returning its input) the posts are put
  in front of both lists; the instance that follows is the scenario of the
  specification, post 3 paginated onto post 1.
\<close>

theorem pagination_success_prepends:
  "entities (reducer M s (WALL_PAGINATION_COMPLETE_SUCCESS p)) = statuses p @ entities s \<and>
   filteredEntities (reducer M s (WALL_PAGINATION_COMPLETE_SUCCESS p)) =
     (if removeDuplicate s then removeDuplicateCheck M else (\<lambda>es. es))
       ((if profanityCheck s then profanityFilter M (statuses p)
         else accountExclusion M (statuses p) (blockedUser s))
        @ filteredEntities s) \<and>
   (blockedUser s = [] \<and> \<not> profanityCheck s \<and> \<not> removeDuplicate s \<and>
    accountExclusion M (statuses p) [] = statuses p \<longrightarrow>
      entities (reducer M s (WALL_PAGINATION_COMPLETE_SUCCESS p)) = statuses p @ entities s \<and>
      filteredEntities (reducer M s (WALL_PAGINATION_COMPLETE_SUCCESS p))
        = statuses p @ filteredEntities s)"
  by (simp add: Let_def)

theorem pagination_success_witness:
  "accountExclusion wall_models [post3] [] = [post3] \<and>
   entities (reducer wall_models
      \<lparr>entities = [post1], filteredEntities = [post1], hiddenFeedId = [], blockedUser = [],
       profanityCheck = False, removeDuplicate = False\<rparr>
      (WALL_PAGINATION_COMPLETE_SUCCESS \<lparr>statuses = [post3]\<rparr>)) = [post3, post1] \<and>
   filteredEntities (reducer wall_models
      \<lparr>entities = [post1], filteredEntities = [post1], hiddenFeedId = [], blockedUser = [],
       profanityCheck = False, removeDuplicate = False\<rparr>
      (WALL_PAGINATION_COMPLETE_SUCCESS \<lparr>statuses = [post3]\<rparr>)) = [post3, post1]"
  using pagination_success_prepends
    [of wall_models
        "\<lparr>entities = [post1], filteredEntities = [post1], hiddenFeedId = [], blockedUser = [],
          profanityCheck = False, removeDuplicate = False\<rparr>"
        "\<lparr>statuses = [post3]\<rparr>"]
  by (simp add: wall_models_def spec_models_def accountExclusion_spec_def)

text \<open>
  C7. \<open>ProfanityToggle(b)\<close> sets \<open>filteredEntities\<close> to \<open>profanityFilter\<close> of the
  current \<open>filteredEntities\<close> and \<open>profanityCheck\<close> to \<open>b\<close>; \<open>DuplicateToggle(b)\<close> sets
  \<open>filteredEntities\<close> to \<open>removeDuplicateCheck\<close> of the current \<open>filteredEntities\<close> and
  \<open>removeDuplicate\<close> to \<open>b\<close>. The filter runs whatever \<open>b\<close> is (switching off gives
  the same view as switching on) and \<open>entities\<close> is not consulted (replacing it
  by any list \<open>es\<close> changes nothing), so switching a filter on and off again
  leaves the view filtered twice: what was removed stays removed.
\<close>

theorem toggles_filter_current_view:
  "filteredEntities (reducer M s (WALL_PROFANITY_CHANGE_ACTION b))
     = profanityFilter M (filteredEntities s) \<and>
   profanityCheck (reducer M s (WALL_PROFANITY_CHANGE_ACTION b)) = b \<and>
   filteredEntities (reducer M s (WALL_REMOVE_DUPLICATE_CHANGE_ACTION b))
     = removeDuplicateCheck M (filteredEntities s) \<and>
   removeDuplicate (reducer M s (WALL_REMOVE_DUPLICATE_CHANGE_ACTION b)) = b \<and>
   filteredEntities (reducer M (s\<lparr>entities := es\<rparr>) (WALL_PROFANITY_CHANGE_ACTION b))
     = profanityFilter M (filteredEntities s) \<and>
   filteredEntities (reducer M (s\<lparr>entities := es\<rparr>) (WALL_REMOVE_DUPLICATE_CHANGE_ACTION b))
     = removeDuplicateCheck M (filteredEntities s) \<and>
   filteredEntities (reducer M s (WALL_PROFANITY_CHANGE_ACTION False))
     = filteredEntities (reducer M s (WALL_PROFANITY_CHANGE_ACTION True)) \<and>
   filteredEntities (reducer M s (WALL_REMOVE_DUPLICATE_CHANGE_ACTION False))
     = filteredEntities (reducer M s (WALL_REMOVE_DUPLICATE_CHANGE_ACTION True)) \<and>
   filteredEntities (dispatch M s
       [WALL_PROFANITY_CHANGE_ACTION True, WALL_PROFANITY_CHANGE_ACTION False])
     = profanityFilter M (profanityFilter M (filteredEntities s)) \<and>
   filteredEntities (dispatch M s
       [WALL_REMOVE_DUPLICATE_CHANGE_ACTION True, WALL_REMOVE_DUPLICATE_CHANGE_ACTION False])
     = removeDuplicateCheck M (removeDuplicateCheck M (filteredEntities s))"
  by (simp add: dispatch_def)

text \<open>
  On the view \<open>[post1, post4, post1]\<close>: profanity on and off again leaves
  \<open>[post1, post1]\<close> (the rejected \<open>post4\<close> does not come back), duplicate removal on
  and off again leaves \<open>[post1, post4]\<close>.
\<close>

theorem toggles_witness:
  "filteredEntities (dispatch wall_models
      \<lparr>entities = [post1, post4, post1], filteredEntities = [post1, post4, post1],
       hiddenFeedId = [], blockedUser = [], profanityCheck = False, removeDuplicate = False\<rparr>
      [WALL_PROFANITY_CHANGE_ACTION True, WALL_PROFANITY_CHANGE_ACTION False])
     = [post1, post1] \<and>
   filteredEntities (dispatch wall_models
      \<lparr>entities = [post1, post4, post1], filteredEntities = [post1, post4, post1],
       hiddenFeedId = [], blockedUser = [], profanityCheck = False, removeDuplicate = False\<rparr>
      [WALL_REMOVE_DUPLICATE_CHANGE_ACTION True, WALL_REMOVE_DUPLICATE_CHANGE_ACTION False])
     = [post1, post4]"
  using toggles_filter_current_view
    [of wall_models
      "\<lparr>entities = [post1, post4, post1], filteredEntities = [post1, post4, post1],
        hiddenFeedId = [], blockedUser = [], profanityCheck = False, removeDuplicate = False\<rparr>"]
  by (simp add: wall_models_def spec_models_def profanityFilter_spec_def profane_word_def
        post1_def post4_def)

text \<open>
  C8. \<open>HideFeed(id)\<close> sets \<open>filteredEntities\<close> to \<open>hideFeed\<close> of the current
  \<open>filteredEntities\<close> and the id, and puts the id at the end of \<open>hiddenFeedId\<close>
  without looking whether it is there already: hiding the same id twice adds
  two occurrences of it.
\<close>

theorem hide_feed_appends_id:
  "filteredEntities (reducer M s (WALL_HIDE_FEED i)) = hideFeed M (filteredEntities s) i \<and>
   hiddenFeedId (reducer M s (WALL_HIDE_FEED i)) = hiddenFeedId s @ [i] \<and>
   hiddenFeedId (dispatch M s [WALL_HIDE_FEED i, WALL_HIDE_FEED i]) = hiddenFeedId s @ [i, i] \<and>
   count_list (hiddenFeedId (dispatch M s [WALL_HIDE_FEED i, WALL_HIDE_FEED i])) i
     = count_list (hiddenFeedId s) i + 2"
  by (simp add: dispatch_def)

theorem hide_feed_witness:
  "filteredEntities (reducer wall_models
      (initialState\<lparr>entities := [post1, post2], filteredEntities := [post1, post2]\<rparr>)
      (WALL_HIDE_FEED ''1'')) = [post2] \<and>
   hiddenFeedId (dispatch wall_models
      (initialState\<lparr>entities := [post1, post2], filteredEntities := [post1, post2]\<rparr>)
      [WALL_HIDE_FEED ''1'', WALL_HIDE_FEED ''1'']) = [''1'', ''1'']"
  using hide_feed_appends_id
    [of wall_models
      "initialState\<lparr>entities := [post1, post2], filteredEntities := [post1, post2]\<rparr>" "''1''"]
  by (simp add: wall_models_def spec_models_def hideFeed_spec_def initialState_def
        post1_def post2_def)

text \<open>
  C10. \<open>UnblockUser(u)\<close> changes \<open>filteredEntities\<close> and \<open>blockedUser\<close> only:
  \<open>entities\<close>, \<open>hiddenFeedId\<close>, \<open>profanityCheck\<close> and \<open>removeDuplicate\<close> are as before.
  The new \<open>blockedUser\<close> is \<open>removeId\<close> of \<open>hiddenFeedId\<close> and \<open>u\<close>: the previous list
  of blocked users is replaced as a whole (whatever list \<open>bs\<close> it was, the result
  is the same).
\<close>

theorem unblock_frame:
  "entities (reducer M s (WALL_UNBLOCK_USER u)) = entities s \<and>
   hiddenFeedId (reducer M s (WALL_UNBLOCK_USER u)) = hiddenFeedId s \<and>
   profanityCheck (reducer M s (WALL_UNBLOCK_USER u)) = profanityCheck s \<and>
   removeDuplicate (reducer M s (WALL_UNBLOCK_USER u)) = removeDuplicate s \<and>
   blockedUser (reducer M s (WALL_UNBLOCK_USER u)) = removeId M (hiddenFeedId s) u \<and>
   filteredEntities (reducer M s (WALL_UNBLOCK_USER u))
     = accountInclusion M (entities s) (filteredEntities s) u \<and>
   reducer M s (WALL_UNBLOCK_USER u)
     = s\<lparr>filteredEntities := accountInclusion M (entities s) (filteredEntities s) u,
         blockedUser := removeId M (hiddenFeedId s) u\<rparr> \<and>
   blockedUser (reducer M (s\<lparr>blockedUser := bs\<rparr>) (WALL_UNBLOCK_USER u))
     = removeId M (hiddenFeedId s) u"
  by simp

theorem unblock_frame_witness:
  "reducer wall_models
      \<lparr>entities = [post1, post2], filteredEntities = [post2], hiddenFeedId = [''7'', ''a'', ''2''],
       blockedUser = [''a'', ''z''], profanityCheck = True, removeDuplicate = False\<rparr>
      (WALL_UNBLOCK_USER ''a'')
   = \<lparr>entities = [post1, post2], filteredEntities = [post2, post1],
      hiddenFeedId = [''7'', ''a'', ''2''], blockedUser = [''7'', ''2''],
      profanityCheck = True, removeDuplicate = False\<rparr>"
  using unblock_frame
    [of wall_models
      "\<lparr>entities = [post1, post2], filteredEntities = [post2], hiddenFeedId = [''7'', ''a'', ''2''],
        blockedUser = [''a'', ''z''], profanityCheck = True, removeDuplicate = False\<rparr>" "''a''"]
  by (simp add: wall_models_def spec_models_def accountInclusion_spec_def removeId_spec_def
        post1_def post2_def)

section \<open>The filtered view stays within the raw list, by id\<close>

lemma ids_of_append: "ids_of idf (xs @ ys) = ids_of idf xs \<union> ids_of idf ys"
  by (simp add: ids_of_def image_Un)

lemma search_keeps_filtered_ids:
  assumes c: "helper_contracts idf M"
  shows "filtered_ids_within_entities idf (reducer M s (WALL_SEARCH_COMPLETE_SUCCESS p))"
proof -
  let ?x = "accountExclusion M (statuses p) (blockedUser s)"
  let ?y = "if profanityCheck s then profanityFilter M ?x else ?x"
  let ?z = "if removeDuplicate s then removeDuplicateCheck M ?y else ?y"
  have 1: "ids_of idf ?x \<subseteq> ids_of idf (statuses p)"
    using c by (simp add: helper_contracts_def)
  have "ids_of idf ?y \<subseteq> ids_of idf ?x"
    using c by (simp add: helper_contracts_def)
  with 1 have 2: "ids_of idf ?y \<subseteq> ids_of idf (statuses p)"
    by (rule order_trans [rotated])
  have "ids_of idf ?z \<subseteq> ids_of idf ?y"
    using c by (simp add: helper_contracts_def)
  with 2 have "ids_of idf ?z \<subseteq> ids_of idf (statuses p)"
    by (rule order_trans [rotated])
  then show ?thesis
    by (simp add: filtered_ids_within_entities_def Let_def)
qed

lemma pagination_keeps_filtered_ids:
  assumes c: "helper_contracts idf M"
    and inv: "filtered_ids_within_entities idf s"
  shows "filtered_ids_within_entities idf (reducer M s (WALL_PAGINATION_COMPLETE_SUCCESS p))"
proof -
  let ?n = "if profanityCheck s then profanityFilter M (statuses p)
            else accountExclusion M (statuses p) (blockedUser s)"
  let ?f = "?n @ filteredEntities s"
  let ?g = "if removeDuplicate s then removeDuplicateCheck M ?f else ?f"
  have 1: "ids_of idf ?n \<subseteq> ids_of idf (statuses p)"
    using c by (simp add: helper_contracts_def)
  have i: "ids_of idf (filteredEntities s) \<subseteq> ids_of idf (entities s)"
    using inv by (simp add: filtered_ids_within_entities_def)
  have 2: "ids_of idf ?f \<subseteq> ids_of idf (statuses p @ entities s)"
    unfolding ids_of_append using 1 i by blast
  have "ids_of idf ?g \<subseteq> ids_of idf ?f"
    using c by (simp add: helper_contracts_def)
  with 2 have "ids_of idf ?g \<subseteq> ids_of idf (statuses p @ entities s)"
    by (rule order_trans [rotated])
  then show ?thesis
    by (simp add: filtered_ids_within_entities_def Let_def)
qed

lemma moderation_keeps_filtered_ids:
  assumes c: "helper_contracts idf M"
    and inv: "filtered_ids_within_entities idf s"
  shows "filtered_ids_within_entities idf (reducer M s (WALL_HIDE_FEED i))"
    and "filtered_ids_within_entities idf (reducer M s (WALL_SHOW_FEED i))"
    and "filtered_ids_within_entities idf (reducer M s (WALL_BLOCK_USER i))"
    and "filtered_ids_within_entities idf (reducer M s (WALL_UNBLOCK_USER i))"
    and "filtered_ids_within_entities idf (reducer M s (WALL_PROFANITY_CHANGE_ACTION b))"
    and "filtered_ids_within_entities idf (reducer M s (WALL_REMOVE_DUPLICATE_CHANGE_ACTION b))"
proof -
  let ?F = "filteredEntities s" and ?E = "entities s"
  have i: "ids_of idf ?F \<subseteq> ids_of idf ?E"
    using inv by (simp add: filtered_ids_within_entities_def)
  have "ids_of idf (hideFeed M ?F i) \<subseteq> ids_of idf ?F"
    using c by (simp add: helper_contracts_def)
  with i show "filtered_ids_within_entities idf (reducer M s (WALL_HIDE_FEED i))"
    by (simp add: filtered_ids_within_entities_def)
  have "ids_of idf (showFeed M ?E ?F i) \<subseteq> ids_of idf ?F \<union> ids_of idf ?E"
    using c by (simp add: helper_contracts_def)
  with i show "filtered_ids_within_entities idf (reducer M s (WALL_SHOW_FEED i))"
    by (simp add: filtered_ids_within_entities_def) blast
  have "ids_of idf (accountExclusion M ?F (blockedUser s @ [i])) \<subseteq> ids_of idf ?F"
    using c by (simp add: helper_contracts_def)
  with i show "filtered_ids_within_entities idf (reducer M s (WALL_BLOCK_USER i))"
    by (simp add: filtered_ids_within_entities_def Let_def)
  have "ids_of idf (accountInclusion M ?E ?F i) \<subseteq> ids_of idf ?F \<union> ids_of idf ?E"
    using c by (simp add: helper_contracts_def)
  with i show "filtered_ids_within_entities idf (reducer M s (WALL_UNBLOCK_USER i))"
    by (simp add: filtered_ids_within_entities_def) blast
  have "ids_of idf (profanityFilter M ?F) \<subseteq> ids_of idf ?F"
    using c by (simp add: helper_contracts_def)
  with i show "filtered_ids_within_entities idf (reducer M s (WALL_PROFANITY_CHANGE_ACTION b))"
    by (simp add: filtered_ids_within_entities_def)
  have "ids_of idf (removeDuplicateCheck M ?F) \<subseteq> ids_of idf ?F"
    using c by (simp add: helper_contracts_def)
  with i show
    "filtered_ids_within_entities idf (reducer M s (WALL_REMOVE_DUPLICATE_CHANGE_ACTION b))"
    by (simp add: filtered_ids_within_entities_def)
qed

lemma reducer_keeps_filtered_ids:
  "helper_contracts idf M \<Longrightarrow> filtered_ids_within_entities idf s \<Longrightarrow>
   filtered_ids_within_entities idf (reducer M s a)"
  by (cases a)
    (simp_all add: search_keeps_filtered_ids pagination_keeps_filtered_ids
       moderation_keeps_filtered_ids del: reducer.simps(1,3,5,6,7,8,9,10))

lemma dispatch_keeps_filtered_ids:
  "helper_contracts idf M \<Longrightarrow> filtered_ids_within_entities idf s \<Longrightarrow>
   filtered_ids_within_entities idf (dispatch M s acts)"
  unfolding dispatch_def
  by (induction acts arbitrary: s) (simp_all add: reducer_keeps_filtered_ids)

lemma initialState_filtered_ids: "filtered_ids_within_entities idf initialState"
  by (simp add: filtered_ids_within_entities_def initialState_def)

lemma set_removeDuplicateCheck_spec: "set (removeDuplicateCheck_spec key es) \<subseteq> set es"
  by (induction key es rule: removeDuplicateCheck_spec.induct) auto

lemma wall_models_contracts: "helper_contracts ent_id wall_models"
  unfolding helper_contracts_def wall_models_def spec_models_def ids_of_def
  using set_removeDuplicateCheck_spec [of ent_id]
  by (auto simp: accountExclusion_spec_def profanityFilter_spec_def hideFeed_spec_def
      showFeed_spec_def accountInclusion_spec_def)

text \<open>
  C9. Provided the helpers keep to their contracts (\<open>helper_contracts\<close>), in every
  state reached from \<open>initialState\<close> by a sequence of actions each id that occurs
  in \<open>filteredEntities\<close> occurs in \<open>entities\<close>.
\<close>

theorem filtered_ids_subset_of_entity_ids:
  "helper_contracts idf M \<Longrightarrow>
   ids_of idf (filteredEntities (dispatch M initialState acts))
     \<subseteq> ids_of idf (entities (dispatch M initialState acts))"
  using dispatch_keeps_filtered_ids [OF _ initialState_filtered_ids, of idf M acts]
  by (simp add: filtered_ids_within_entities_def)

lemma wall_session_result:
  "dispatch wall_models initialState wall_session =
     \<lparr>entities = [post3, post1, post2], filteredEntities = [post2, post3],
      hiddenFeedId = [], blockedUser = [''a''], profanityCheck = False,
      removeDuplicate = False\<rparr>"
  by (simp add: wall_session_def dispatch_def initialState_def wall_models_def spec_models_def
      accountExclusion_spec_def hideFeed_spec_def showFeed_spec_def removeId_spec_def
      post1_def post2_def post3_def)

theorem filtered_ids_subset_witness:
  "helper_contracts ent_id wall_models \<and>
   filteredEntities (dispatch wall_models initialState wall_session) = [post2, post3] \<and>
   entities (dispatch wall_models initialState wall_session) = [post3, post1, post2] \<and>
   ids_of ent_id [post2, post3] \<subseteq> ids_of ent_id [post3, post1, post2]"
  using filtered_ids_subset_of_entity_ids [OF wall_models_contracts, of wall_session]
    wall_models_contracts
  by (simp add: wall_session_result)

section \<open>Properties that depend on what the helpers do\<close>

text \<open>
  The statements of this section are about the reducer run with the helpers
  modelled from the specification, \<open>spec_models pf rd\<close>, for every profanity
  filter \<open>pf\<close> and every duplicate filter \<open>rd\<close>.
\<close>

text \<open>
  C6, as amended. \<open>BlockUser(u)\<close> puts \<open>u\<close> at the end of \<open>blockedUser\<close>, leaves
  \<open>entities\<close> as it is, and keeps of \<open>filteredEntities\<close>, in their order, exactly the
  posts whose account is neither \<open>u\<close> nor an account blocked before: no post of
  \<open>u\<close> is left, and every post of an account that is neither \<open>u\<close> nor already
  blocked stays. (The reducer hands the whole extended list of blocked users to
  \<open>accountExclusion\<close>, so a post of another account that was blocked before but
  still in the view goes too.)
\<close>

theorem block_user_excludes_blocked_accounts:
  "filteredEntities (reducer (spec_models pf rd) s (WALL_BLOCK_USER u))
     = filter (\<lambda>e. acct e \<noteq> u \<and> acct e \<notin> set (blockedUser s)) (filteredEntities s) \<and>
   blockedUser (reducer (spec_models pf rd) s (WALL_BLOCK_USER u)) = blockedUser s @ [u] \<and>
   entities (reducer (spec_models pf rd) s (WALL_BLOCK_USER u)) = entities s \<and>
   (\<forall>e \<in> set (filteredEntities (reducer (spec_models pf rd) s (WALL_BLOCK_USER u))).
      acct e \<noteq> u) \<and>
   (\<forall>e \<in> set (filteredEntities s).
      acct e \<noteq> u \<and> acct e \<notin> set (blockedUser s) \<longrightarrow>
      e \<in> set (filteredEntities (reducer (spec_models pf rd) s (WALL_BLOCK_USER u))))"
  by (auto simp: spec_models_def accountExclusion_spec_def Let_def intro: filter_cong)

text \<open>
  The scenario of the specification: posts 1 (by "a") and 2 (by "b") in both
  lists, nobody blocked; after \<open>BlockUser("a")\<close> the view is post 2 and the
  blocked users are \<open>["a"]\<close>.
\<close>

theorem block_user_witness:
  "reducer wall_models
     \<lparr>entities = [post1, post2], filteredEntities = [post1, post2], hiddenFeedId = [],
      blockedUser = [], profanityCheck = False, removeDuplicate = False\<rparr>
     (WALL_BLOCK_USER ''a'')
   = \<lparr>entities = [post1, post2], filteredEntities = [post2], hiddenFeedId = [],
      blockedUser = [''a''], profanityCheck = False, removeDuplicate = False\<rparr>"
  using block_user_excludes_blocked_accounts
    [of "profanityFilter_spec profane_word" "removeDuplicateCheck_spec ent_id"
      "\<lparr>entities = [post1, post2], filteredEntities = [post1, post2], hiddenFeedId = [],
        blockedUser = [], profanityCheck = False, removeDuplicate = False\<rparr>" "''a''"]
  by (simp add: wall_models_def spec_models_def accountExclusion_spec_def post1_def post2_def)

text \<open>
  The claim as stated, "posts of other authors are untouched", fails when
  another author is blocked already and has a post in the view. Such a state is
  reached from \<open>initialState\<close>: with the profanity check on, a page of results
  is filtered for profanity only, so the post of the blocked "b" enters the view;
  blocking "a" then removes it, though "b" is not "a".
\<close>

theorem block_user_counterexample:
  "filteredEntities (dispatch wall_models initialState
      [WALL_PROFANITY_CHANGE_ACTION True, WALL_BLOCK_USER ''b'',
       WALL_PAGINATION_COMPLETE_SUCCESS \<lparr>statuses = [post2]\<rparr>]) = [post2] \<and>
   acct post2 = ''b'' \<and> ''b'' \<noteq> ''a'' \<and>
   filteredEntities (dispatch wall_models initialState
      [WALL_PROFANITY_CHANGE_ACTION True, WALL_BLOCK_USER ''b'',
       WALL_PAGINATION_COMPLETE_SUCCESS \<lparr>statuses = [post2]\<rparr>,
       WALL_BLOCK_USER ''a'']) = []"
  by (simp add: dispatch_def initialState_def wall_models_def spec_models_def
      accountExclusion_spec_def profanityFilter_spec_def profane_word_def post2_def)

text \<open>
  C3, as amended. After \<open>BlockUser(a)\<close> followed by \<open>UnblockUser(a)\<close>, every post
  of \<open>entities\<close> written by \<open>a\<close> is in \<open>filteredEntities\<close> again (\<open>accountInclusion\<close>
  re-adds them), and \<open>a\<close> is not a member of \<open>blockedUser\<close>.
\<close>

theorem block_then_unblock_restores_posts:
  "(\<forall>e \<in> set (entities s). acct e = a \<longrightarrow>
      e \<in> set (filteredEntities
        (dispatch (spec_models pf rd) s [WALL_BLOCK_USER a, WALL_UNBLOCK_USER a]))) \<and>
   a \<notin> set (blockedUser
        (dispatch (spec_models pf rd) s [WALL_BLOCK_USER a, WALL_UNBLOCK_USER a]))"
  by (auto simp: dispatch_def spec_models_def accountInclusion_spec_def removeId_spec_def Let_def)

theorem block_then_unblock_witness:
  "dispatch wall_models
     \<lparr>entities = [post1, post2], filteredEntities = [post1, post2], hiddenFeedId = [''a''],
      blockedUser = [''c''], profanityCheck = False, removeDuplicate = False\<rparr>
     [WALL_BLOCK_USER ''a'', WALL_UNBLOCK_USER ''a'']
   = \<lparr>entities = [post1, post2], filteredEntities = [post2, post1], hiddenFeedId = [''a''],
      blockedUser = [], profanityCheck = False, removeDuplicate = False\<rparr>"
  using block_then_unblock_restores_posts
    [of "\<lparr>entities = [post1, post2], filteredEntities = [post1, post2], hiddenFeedId = [''a''],
          blockedUser = [''c''], profanityCheck = False, removeDuplicate = False\<rparr>" "''a''"
        "profanityFilter_spec profane_word" "removeDuplicateCheck_spec ent_id"]
  by (simp add: dispatch_def wall_models_def spec_models_def accountExclusion_spec_def
      accountInclusion_spec_def removeId_spec_def post1_def post2_def)

text \<open>
  The claim as stated fails on the scenario it describes: after a search that
  returns post 1 (by "a") and post 2, \<open>BlockUser("a")\<close> leaves post 2 in the view
  and \<open>["a"]\<close> blocked; \<open>UnblockUser("a")\<close> then brings post 1 back into the view and
  leaves nobody blocked, so the list of blocked users did shrink.
\<close>

theorem block_then_unblock_counterexample:
  "acct post1 = ''a'' \<and>
   entities (dispatch wall_models initialState
      [WALL_SEARCH_COMPLETE_SUCCESS \<lparr>statuses = [post1, post2]\<rparr>,
       WALL_BLOCK_USER ''a'']) = [post1, post2] \<and>
   filteredEntities (dispatch wall_models initialState
      [WALL_SEARCH_COMPLETE_SUCCESS \<lparr>statuses = [post1, post2]\<rparr>,
       WALL_BLOCK_USER ''a'']) = [post2] \<and>
   blockedUser (dispatch wall_models initialState
      [WALL_SEARCH_COMPLETE_SUCCESS \<lparr>statuses = [post1, post2]\<rparr>,
       WALL_BLOCK_USER ''a'']) = [''a''] \<and>
   post1 \<in> set (filteredEntities (dispatch wall_models initialState
      [WALL_SEARCH_COMPLETE_SUCCESS \<lparr>statuses = [post1, post2]\<rparr>,
       WALL_BLOCK_USER ''a'', WALL_UNBLOCK_USER ''a''])) \<and>
   blockedUser (dispatch wall_models initialState
      [WALL_SEARCH_COMPLETE_SUCCESS \<lparr>statuses = [post1, post2]\<rparr>,
       WALL_BLOCK_USER ''a'', WALL_UNBLOCK_USER ''a'']) = []"
  by (simp add: dispatch_def initialState_def wall_models_def spec_models_def
      accountExclusion_spec_def accountInclusion_spec_def removeId_spec_def
      post1_def post2_def)

lemma mset_filter_split:
  "mset (filter (\<lambda>x. \<not> P x) xs) + mset (filter P xs) = mset xs"
  by (induction xs) simp_all

text \<open>
  C5, as amended. Let the id \<open>i\<close> not occur in \<open>hiddenFeedId\<close> yet, and let the
  posts with id \<open>i\<close> occur in \<open>entities\<close> exactly as often as in \<open>filteredEntities\<close>.
  Then \<open>HideFeed(i)\<close> followed by \<open>ShowFeed(i)\<close> yields a \<open>filteredEntities\<close> with the
  same posts as before, each as often as before (the order may differ), and the
  \<open>hiddenFeedId\<close> of before.
\<close>

theorem hide_then_show_restores:
  assumes "i \<notin> set (hiddenFeedId s)"
    and "mset (filter (\<lambda>e. ent_id e = i) (entities s))
         = mset (filter (\<lambda>e. ent_id e = i) (filteredEntities s))"
  shows "mset (filteredEntities
            (dispatch (spec_models pf rd) s [WALL_HIDE_FEED i, WALL_SHOW_FEED i]))
           = mset (filteredEntities s) \<and>
         hiddenFeedId (dispatch (spec_models pf rd) s [WALL_HIDE_FEED i, WALL_SHOW_FEED i])
           = hiddenFeedId s"
proof -
  let ?s' = "dispatch (spec_models pf rd) s [WALL_HIDE_FEED i, WALL_SHOW_FEED i]"
  have view: "filteredEntities ?s'
      = filter (\<lambda>e. ent_id e \<noteq> i) (filteredEntities s)
        @ filter (\<lambda>e. ent_id e = i) (entities s)"
    by (simp add: dispatch_def spec_models_def hideFeed_spec_def showFeed_spec_def)
  have "mset (filteredEntities ?s')
      = mset (filter (\<lambda>e. ent_id e \<noteq> i) (filteredEntities s))
        + mset (filter (\<lambda>e. ent_id e = i) (filteredEntities s))"
    unfolding view using assms(2) by simp
  also have "\<dots> = mset (filteredEntities s)"
    by (rule mset_filter_split)
  finally have 1: "mset (filteredEntities ?s') = mset (filteredEntities s)" .
  have "hiddenFeedId ?s' = filter (\<lambda>x. x \<noteq> i) (hiddenFeedId s)"
    by (simp add: dispatch_def spec_models_def removeId_spec_def)
  also have "\<dots> = hiddenFeedId s"
    using assms(1) by (auto simp: filter_id_conv)
  finally show ?thesis using 1 by simp
qed

theorem hide_then_show_witness:
  "''1'' \<notin> set [''9''] \<and>
   mset (filter (\<lambda>e. ent_id e = ''1'') [post1, post2])
     = mset (filter (\<lambda>e. ent_id e = ''1'') [post2, post1]) \<and>
   mset (filteredEntities (dispatch wall_models
      \<lparr>entities = [post1, post2], filteredEntities = [post2, post1], hiddenFeedId = [''9''],
       blockedUser = [], profanityCheck = False, removeDuplicate = False\<rparr>
      [WALL_HIDE_FEED ''1'', WALL_SHOW_FEED ''1''])) = mset [post2, post1] \<and>
   hiddenFeedId (dispatch wall_models
      \<lparr>entities = [post1, post2], filteredEntities = [post2, post1], hiddenFeedId = [''9''],
       blockedUser = [], profanityCheck = False, removeDuplicate = False\<rparr>
      [WALL_HIDE_FEED ''1'', WALL_SHOW_FEED ''1'']) = [''9'']"
proof -
  let ?s = "\<lparr>entities = [post1, post2], filteredEntities = [post2, post1],
      hiddenFeedId = [''9''], blockedUser = [], profanityCheck = False,
      removeDuplicate = False\<rparr>"
  have h1: "''1'' \<notin> set (hiddenFeedId ?s)"
    by simp
  have h2: "mset (filter (\<lambda>e. ent_id e = ''1'') (entities ?s))
      = mset (filter (\<lambda>e. ent_id e = ''1'') (filteredEntities ?s))"
    by (simp add: post1_def post2_def)
  show ?thesis
    using hide_then_show_restores [OF h1 h2,
        of "profanityFilter_spec profane_word" "removeDuplicateCheck_spec ent_id"] h1 h2
    by (simp add: wall_models_def)
qed

text \<open>
  Both conditions are needed, on states reached from \<open>initialState\<close>. First: a
  search does not consult \<open>hiddenFeedId\<close>, so after hiding posts 1 and 2 and
  searching again post 1 is in the view while \<open>hiddenFeedId\<close> is still
  \<open>["1", "2"]\<close>; hiding and showing post 1 then leaves \<open>["2"]\<close>. Second: with
  duplicate removal on, a search that returns post 1 twice shows it once; hiding
  and showing it re-adds both copies from \<open>entities\<close>.
\<close>

theorem hide_then_show_counterexample:
  "filteredEntities (dispatch wall_models initialState
      [WALL_SEARCH_COMPLETE_SUCCESS \<lparr>statuses = [post1, post2]\<rparr>,
       WALL_HIDE_FEED ''1'', WALL_HIDE_FEED ''2'',
       WALL_SEARCH_COMPLETE_SUCCESS \<lparr>statuses = [post1, post2]\<rparr>]) = [post1, post2] \<and>
   hiddenFeedId (dispatch wall_models initialState
      [WALL_SEARCH_COMPLETE_SUCCESS \<lparr>statuses = [post1, post2]\<rparr>,
       WALL_HIDE_FEED ''1'', WALL_HIDE_FEED ''2'',
       WALL_SEARCH_COMPLETE_SUCCESS \<lparr>statuses = [post1, post2]\<rparr>]) = [''1'', ''2''] \<and>
   hiddenFeedId (dispatch wall_models initialState
      [WALL_SEARCH_COMPLETE_SUCCESS \<lparr>statuses = [post1, post2]\<rparr>,
       WALL_HIDE_FEED ''1'', WALL_HIDE_FEED ''2'',
       WALL_SEARCH_COMPLETE_SUCCESS \<lparr>statuses = [post1, post2]\<rparr>,
       WALL_HIDE_FEED ''1'', WALL_SHOW_FEED ''1'']) = [''2''] \<and>
   ent_id post1 = ''1'' \<and>
   filteredEntities (dispatch wall_models initialState
      [WALL_REMOVE_DUPLICATE_CHANGE_ACTION True,
       WALL_SEARCH_COMPLETE_SUCCESS \<lparr>statuses = [post1, post1]\<rparr>]) = [post1] \<and>
   filteredEntities (dispatch wall_models initialState
      [WALL_REMOVE_DUPLICATE_CHANGE_ACTION True,
       WALL_SEARCH_COMPLETE_SUCCESS \<lparr>statuses = [post1, post1]\<rparr>,
       WALL_HIDE_FEED ''1'', WALL_SHOW_FEED ''1'']) = [post1, post1]"
  by (simp add: dispatch_def initialState_def wall_models_def spec_models_def
      accountExclusion_spec_def hideFeed_spec_def showFeed_spec_def removeId_spec_def
      post1_def post2_def)

end
